theory Spec2Isabelle
  imports Complex_Main "HOL-Library.Log_Nat"
begin

section \<open>The texel density tool (texelGetSet.py)\<close>

text \<open>
  The dialog class \<^verbatim>\<open>MyWindow\<close> of \<^verbatim>\<open>texelGetSet.py\<close> has three slots:
  \<^verbatim>\<open>saveTexelDensity\<close>, \<^verbatim>\<open>set_texel_density\<close> and \<^verbatim>\<open>getTexelDensity\<close>, and two
  helpers \<^verbatim>\<open>getDistance2D\<close> and \<^verbatim>\<open>getDistance3D\<close>. The model below follows them
  line by line.

  Conventions of the embedding:
  \<^item> Python ints are \<^typ>\<open>int\<close> (the edge counter, which only counts up from zero,
    is a \<^typ>\<open>nat\<close>). A Python float is the \<^typ>\<open>real\<close> it denotes. The true
    division of ints of line 94 is modelled as Python computes it: the quotient is
    rounded to the nearest double, and a quotient beyond the range of the doubles
    raises OverflowError. The square roots, products and sums of the measurement are
    taken over the reals.
  \<^item> Every exception the code can raise is a value of \<open>pyerr\<close>; a function that may
    raise returns \<open>pyerr + 'a\<close> with \<open>Inl\<close> for the exception.
  \<^item> The Maya scene is explicit data: an object is its name and its list of edges, an
    edge is its two end points and the list of UV points that
    \<^verbatim>\<open>polyListComponentConversion(edge, toUV=True)\<close> resolves for it.
  \<^item> \<^verbatim>\<open>print\<close> calls write to the script editor only and are left out.
\<close>

subsection \<open>Data\<close>

datatype pyerr =
    NameError | IndexError | ZeroDivisionError | OverflowError | TypeError | ValueError
  | RuntimeError

type_synonym point2 = "real \<times> real"
type_synonym point3 = "real \<times> real \<times> real"

text \<open>
  A polygon edge always joins two vertices, so the flattened vertex list of an edge
  (lines 145-146) has exactly two entries; the number of UVs of an edge varies
  (two inside a UV shell, three or four on a seam, none without UVs).
\<close>

record edge =
  vert0 :: point3
  vert1 :: point3
  uvs :: "point2 list"

record obj =
  obj_name :: string
  obj_edges :: "edge list"

text \<open>The instance attributes of the dialog that the slots read and write.\<close>

record dialog =
  targetTexelDensity :: "int option"
  currentTexelDensity_textField :: string
  setTexelDensity_textField :: string

definition defaultTextureRes :: int where
  "defaultTextureRes = 2048"

subsection \<open>The distance helpers\<close>

text \<open>
  \<^verbatim>\<open>getDistance2D(uvs)\<close> reads \<^verbatim>\<open>uvs[0]\<close> and \<^verbatim>\<open>uvs[1]\<close>; a shorter list raises
  IndexError. \<^verbatim>\<open>math.pow(x, 2)\<close> is the square.
\<close>

fun getDistance2D :: "point2 list \<Rightarrow> pyerr + real" where
  "getDistance2D (a # b # _) =
     Inr (sqrt ((fst a - fst b)\<^sup>2 + (snd a - snd b)\<^sup>2))"
| "getDistance2D _ = Inl IndexError"

fun getDistance3D :: "point3 list \<Rightarrow> pyerr + real" where
  "getDistance3D (a # b # _) =
     Inr (sqrt ((fst a - fst b)\<^sup>2 + (fst (snd a) - fst (snd b))\<^sup>2
                + (snd (snd a) - snd (snd b))\<^sup>2))"
| "getDistance3D _ = Inl IndexError"

text \<open>
  Both helpers are written in the class body and take no \<^verbatim>\<open>self\<close>;
  \<^verbatim>\<open>getTexelDensity\<close> calls them by their bare names (lines 148 and 158). Python
  resolves a bare name inside a method in the module's global namespace, never in the
  class body, and the module binds neither name itself. What the two calls do therefore
  depends on the namespace the script runs in (Maya's script editor shares one
  \<^verbatim>\<open>__main__\<close> namespace between all scripts of a session). The namespace is a
  parameter of the model: a name is either unbound (the call raises NameError) or bound
  to a function.
\<close>

record globals =
  g_getDistance2D :: "(point2 list \<Rightarrow> pyerr + real) option"
  g_getDistance3D :: "(point3 list \<Rightarrow> pyerr + real) option"

text \<open>The namespace the module creates by itself, and the one in which both names
  denote the helpers of the class body.\<close>

definition module_globals :: globals where
  "module_globals = \<lparr>g_getDistance2D = None, g_getDistance3D = None\<rparr>"

definition helper_globals :: globals where
  "helper_globals =
     \<lparr>g_getDistance2D = Some getDistance2D, g_getDistance3D = Some getDistance3D\<rparr>"

subsection \<open>Python's built-in round\<close>

text \<open>\<^verbatim>\<open>round(x)\<close> on a float returns the nearest int, a tie going to the even one.\<close>

definition py_round :: "real \<Rightarrow> int" where
  "py_round x =
     (let f = \<lfloor>x\<rfloor>; d = x - of_int f
      in if d < 1/2 then f
         else if 1/2 < d then f + 1
         else if even f then f else f + 1)"

subsection \<open>True division of ints\<close>

text \<open>
  \<^verbatim>\<open>a / b\<close> on two ints is the exact quotient rounded to the nearest double, a tie
  going to the even mantissa; it raises ZeroDivisionError for a divisor of zero and
  OverflowError when the rounded quotient is no double. A double has a mantissa of 53
  bits and an exponent of at least -1074, and is smaller than \<open>2 ^ 1024\<close> in absolute
  value. \<open>floor_log2_quot a b\<close> is the exponent of the leading bit of \<open>a / b\<close> for
  positive \<open>a\<close> and \<open>b\<close>.
\<close>

definition floor_log2_quot :: "int \<Rightarrow> int \<Rightarrow> int" where
  "floor_log2_quot a b =
     (let k = bitlen a - bitlen b
      in if b * 2 ^ nat k \<le> a * 2 ^ nat (- k) then k else k - 1)"

definition py_truediv :: "int \<Rightarrow> int \<Rightarrow> pyerr + real" where
  "py_truediv a b =
     (if b = 0 then Inl ZeroDivisionError
      else if a = 0 then Inr 0
      else
        let e = max (floor_log2_quot \<bar>a\<bar> \<bar>b\<bar> - 52) (- 1074);
            m = py_round (of_int a / of_int b / 2 powi e);
            r = of_int m * 2 powi e
        in if 2 ^ 1024 \<le> \<bar>r\<bar> then Inl OverflowError else Inr r)"

subsection \<open>getTexelDensity\<close>

text \<open>Lines 145-146: the two end points of the edge, as a flattened list.\<close>

definition edge_verts :: "edge \<Rightarrow> point3 list" where
  "edge_verts e = [vert0 e, vert1 e]"

text \<open>
  One pass through the loop body (lines 144-164) on the loop state
  \<open>(numInternalEdges, texelDensity)\<close>. The world length and its reciprocal are
  computed first, for every edge; the UV count is tested afterwards.
\<close>

definition edge_step :: "globals \<Rightarrow> edge \<Rightarrow> nat \<times> real \<Rightarrow> pyerr + (nat \<times> real)" where
  "edge_step G e st =
     (case g_getDistance3D G of
        None \<Rightarrow> Inl NameError
      | Some gd3 \<Rightarrow>
          (case gd3 (edge_verts e) of
             Inl err \<Rightarrow> Inl err
           | Inr edgeLen \<Rightarrow>
               if edgeLen = 0 then Inl ZeroDivisionError
               else
                 let edgeLenToUnitRatio = 1 / edgeLen in
                 if length (uvs e) = 2 then
                   (case g_getDistance2D G of
                      None \<Rightarrow> Inl NameError
                    | Some gd2 \<Rightarrow>
                        (case gd2 (uvs e) of
                           Inl err \<Rightarrow> Inl err
                         | Inr uvEdgeLen \<Rightarrow>
                             let uvEdgeTexelDensity = of_int defaultTextureRes * uvEdgeLen;
                                 edgeTexelDensity = uvEdgeTexelDensity * edgeLenToUnitRatio
                             in Inr (fst st + 1, snd st + edgeTexelDensity)))
                 else Inr st))"

text \<open>The loop over \<^verbatim>\<open>range(numEdges)\<close>; an exception ends it.\<close>

fun edge_loop :: "globals \<Rightarrow> edge list \<Rightarrow> nat \<times> real \<Rightarrow> pyerr + (nat \<times> real)" where
  "edge_loop G [] st = Inr st"
| "edge_loop G (e # es) st =
     (case edge_step G e st of
        Inl err \<Rightarrow> Inl err
      | Inr st' \<Rightarrow> edge_loop G es st')"

text \<open>
  Lines 140-167: the value of the local \<^verbatim>\<open>texelDensity\<close> after the rounding. The
  division by \<^verbatim>\<open>numInternalEdges\<close> raises ZeroDivisionError when the counter is zero.
\<close>

definition texelDensity :: "globals \<Rightarrow> edge list \<Rightarrow> pyerr + int" where
  "texelDensity G es =
     (case edge_loop G es (0, 0) of
        Inl err \<Rightarrow> Inl err
      | Inr (numInternalEdges, td) \<Rightarrow>
          if numInternalEdges = 0 then Inl ZeroDivisionError
          else Inr (py_round (td / real numInternalEdges)))"

text \<open>Python's \<^verbatim>\<open>str\<close> on an int: decimal digits, a minus sign for a negative.\<close>

definition digit_char :: "nat \<Rightarrow> char" where
  "digit_char k = ''0123456789'' ! k"

fun str_nat :: "nat \<Rightarrow> string" where
  "str_nat n =
     (if n < 10 then [digit_char n]
      else str_nat (n div 10) @ [digit_char (n mod 10)])"

definition str_int :: "int \<Rightarrow> string" where
  "str_int i = (if i < 0 then CHR ''-'' # str_nat (nat (- i)) else str_nat (nat i))"

text \<open>
  The slot itself, on the current selection (\<^verbatim>\<open>cmds.ls(sl=True)\<close>) and the dialog.
  \<^verbatim>\<open>cmds.ls(sl=True)[0]\<close> raises IndexError on an empty selection. The two text fields
  are written only after the computation (lines 168-169), so an exception leaves the
  dialog as it was: the result \<open>Inl\<close> carries no dialog.
\<close>

definition getTexelDensity :: "globals \<Rightarrow> obj list \<Rightarrow> dialog \<Rightarrow> pyerr + dialog" where
  "getTexelDensity G sel d =
     (case sel of
        [] \<Rightarrow> Inl IndexError
      | selectedObject # _ \<Rightarrow>
          (case texelDensity G (obj_edges selectedObject) of
             Inl err \<Rightarrow> Inl err
           | Inr td \<Rightarrow>
               Inr (d\<lparr>currentTexelDensity_textField := str_int td,
                      setTexelDensity_textField := ''''\<rparr>)))"

subsection \<open>saveTexelDensity\<close>

text \<open>
  Python's \<^verbatim>\<open>int\<close> on a string, for ASCII text: white space is stripped at both
  ends, then an optional sign and decimal digits follow, where single underscores may
  stand between digits. Anything else raises ValueError.
\<close>

definition is_space :: "char \<Rightarrow> bool" where
  "is_space c = (c \<in> set [CHR '' '', CHR 0x09, CHR 0x0A, CHR 0x0B, CHR 0x0C, CHR 0x0D])"

definition strip :: "string \<Rightarrow> string" where
  "strip s = rev (dropWhile is_space (rev (dropWhile is_space s)))"

definition digit_of :: "char \<Rightarrow> nat option" where
  "digit_of c =
     (if c \<in> set ''0123456789'' then Some (of_char c - 48) else None)"

fun parse_digits :: "nat \<Rightarrow> string \<Rightarrow> nat option" where
  "parse_digits acc [] = Some acc"
| "parse_digits acc (c # cs) =
     (if c = CHR ''_'' then
        (case cs of
           [] \<Rightarrow> None
         | c' # _ \<Rightarrow> (case digit_of c' of None \<Rightarrow> None | Some _ \<Rightarrow> parse_digits acc cs))
      else
        (case digit_of c of
           None \<Rightarrow> None
         | Some v \<Rightarrow> parse_digits (10 * acc + v) cs))"

definition parse_nat :: "string \<Rightarrow> nat option" where
  "parse_nat s =
     (case s of
        [] \<Rightarrow> None
      | c # cs \<Rightarrow> (case digit_of c of None \<Rightarrow> None | Some v \<Rightarrow> parse_digits v cs))"

definition py_int :: "string \<Rightarrow> int option" where
  "py_int s =
     (case strip s of
        [] \<Rightarrow> None
      | c # cs \<Rightarrow>
          if c = CHR ''-'' then map_option (\<lambda>n. - int n) (parse_nat cs)
          else if c = CHR ''+'' then map_option int (parse_nat cs)
          else map_option int (parse_nat (c # cs)))"

text \<open>Lines 78-83: the slot of \<^verbatim>\<open>editingFinished\<close> stores the parsed target in the dialog.\<close>

definition saveTexelDensity :: "dialog \<Rightarrow> pyerr + dialog" where
  "saveTexelDensity d =
     (case py_int (setTexelDensity_textField d) of
        None \<Rightarrow> Inl ValueError
      | Some n \<Rightarrow> Inr (d\<lparr>targetTexelDensity := Some n\<rparr>))"

subsection \<open>set_texel_density\<close>

text \<open>
  Line 94: \<^verbatim>\<open>scaleTarget = texDensity / defaultTextureRes\<close>, a true division of two
  ints into a float.
\<close>

definition scaleTarget :: "int \<Rightarrow> pyerr + real" where
  "scaleTarget texDensity = py_truediv texDensity defaultTextureRes"

text \<open>
  Lines 96-97: \<^verbatim>\<open>cmds.unfold\<close> is a primitive of the host. The model records each
  invocation as the object and the scale \<^verbatim>\<open>s\<close> it was given (the other arguments
  are constants); whether the host accepts an invocation is the parameter
  \<open>unfold_ok\<close>, and a refused one raises RuntimeError, which ends the loop. The
  result is the invocations made, in order, and the exception if any.
\<close>

fun unfold_loop ::
  "(obj \<Rightarrow> real \<Rightarrow> bool) \<Rightarrow> obj list \<Rightarrow> real \<Rightarrow> (obj \<times> real) list \<times> pyerr option" where
  "unfold_loop unfold_ok [] s = ([], None)"
| "unfold_loop unfold_ok (ob # sel) s =
     (if unfold_ok ob s
      then (case unfold_loop unfold_ok sel s of (calls, r) \<Rightarrow> ((ob, s) # calls, r))
      else ([(ob, s)], Some RuntimeError))"

text \<open>
  The slot, on the current selection (\<^verbatim>\<open>cmds.ls(sl=True, flatten=True)\<close>) and the
  dialog. The stored target is read from the dialog; when it is still
  \<^verbatim>\<open>None\<close> the division of line 94 raises TypeError, and when the quotient is no
  double it raises OverflowError, both before any invocation of \<^verbatim>\<open>unfold\<close>. The
  text field is written last (line 99). The result pairs the invocations of
  \<^verbatim>\<open>unfold\<close> with the exception or the new dialog.
\<close>

definition set_texel_density ::
  "(obj \<Rightarrow> real \<Rightarrow> bool) \<Rightarrow> obj list \<Rightarrow> dialog \<Rightarrow> (obj \<times> real) list \<times> (pyerr + dialog)" where
  "set_texel_density unfold_ok sel d =
     (case targetTexelDensity d of
        None \<Rightarrow> ([], Inl TypeError)
      | Some texDensity \<Rightarrow>
          (case scaleTarget texDensity of
             Inl err \<Rightarrow> ([], Inl err)
           | Inr s \<Rightarrow>
               (case unfold_loop unfold_ok sel s of
                  (calls, Some err) \<Rightarrow> (calls, Inl err)
                | (calls, None) \<Rightarrow>
                    (calls,
                     Inr (d\<lparr>currentTexelDensity_textField := str_int texDensity\<rparr>)))))"

subsection \<open>The quantities of the specification\<close>

text \<open>
  An interior edge has exactly two UVs. \<open>worldLen\<close> is the Euclidean distance of
  the end points of an edge, \<open>uvLen\<close> that of its first two UVs, and
  \<open>edgeDensity\<close> the density the specification gives one edge.
\<close>

definition interior :: "edge \<Rightarrow> bool" where
  "interior e = (length (uvs e) = 2)"

definition worldLen :: "edge \<Rightarrow> real" where
  "worldLen e =
     (case (vert0 e, vert1 e) of
        ((x0, y0, z0), (x1, y1, z1)) \<Rightarrow>
          sqrt ((x0 - x1)\<^sup>2 + (y0 - y1)\<^sup>2 + (z0 - z1)\<^sup>2))"

definition uvLen :: "edge \<Rightarrow> real" where
  "uvLen e =
     (case uvs e of
        (u0, v0) # (u1, v1) # _ \<Rightarrow> sqrt ((u0 - u1)\<^sup>2 + (v0 - v1)\<^sup>2)
      | _ \<Rightarrow> 0)"

definition edgeDensity :: "edge \<Rightarrow> real" where
  "edgeDensity e = of_int defaultTextureRes * uvLen e * (1 / worldLen e)"

subsection \<open>Example scenes\<close>

text \<open>
  \<open>unit_edge\<close> is the interior edge of the specification's scenario: world length 1,
  UV length 0.1. \<open>seam_edge\<close> is a seam edge (four UVs) whose end points coincide,
  \<open>border_edge\<close> a seam edge of world length 2. \<open>polySurface1\<close> is a mesh
  without edges.
\<close>

definition unit_edge :: edge where
  "unit_edge = \<lparr>vert0 = (0, 0, 0), vert1 = (1, 0, 0), uvs = [(0, 0), (1/10, 0)]\<rparr>"

definition seam_edge :: edge where
  "seam_edge =
     \<lparr>vert0 = (0, 0, 0), vert1 = (0, 0, 0),
      uvs = [(0, 0), (0, 0), (1/2, 0), (1/2, 0)]\<rparr>"

definition border_edge :: edge where
  "border_edge =
     \<lparr>vert0 = (0, 0, 0), vert1 = (0, 2, 0),
      uvs = [(0, 0), (0, 1/4), (1/2, 0), (1/2, 1/4)]\<rparr>"

definition pPlane1 :: obj where
  "pPlane1 = \<lparr>obj_name = ''pPlane1'', obj_edges = [unit_edge]\<rparr>"

definition pPlane2 :: obj where
  "pPlane2 = \<lparr>obj_name = ''pPlane2'', obj_edges = [seam_edge, unit_edge]\<rparr>"

definition pPlane3 :: obj where
  "pPlane3 = \<lparr>obj_name = ''pPlane3'', obj_edges = [border_edge, unit_edge]\<rparr>"

definition pPlane4 :: obj where
  "pPlane4 = \<lparr>obj_name = ''pPlane4'', obj_edges = [border_edge]\<rparr>"

definition polySurface1 :: obj where
  "polySurface1 = \<lparr>obj_name = ''polySurface1'', obj_edges = []\<rparr>"

definition pPlane5 :: obj where
  "pPlane5 = \<lparr>obj_name = ''pPlane5'', obj_edges = [unit_edge, seam_edge]\<rparr>"

text \<open>The dialog as \<^verbatim>\<open>__init__\<close> leaves it, and with a text typed into the target field.\<close>

definition new_dialog :: dialog where
  "new_dialog =
     \<lparr>targetTexelDensity = None, currentTexelDensity_textField = '''',
      setTexelDensity_textField = ''''\<rparr>"

definition typed_dialog :: "string \<Rightarrow> dialog" where
  "typed_dialog txt = new_dialog\<lparr>setTexelDensity_textField := txt\<rparr>"

definition always_ok :: "obj \<Rightarrow> real \<Rightarrow> bool" where
  "always_ok ob s = True"

text \<open>A target whose quotient by 2048 is \<open>2 ^ 1024\<close>, beyond the largest double.\<close>

definition huge_target :: int where
  "huge_target = 2 * 2 ^ 1034"

text \<open>
  The dialog after the user typed 1024 and left the field, after a normalization with
  that target, and after a later measurement that showed 205.
\<close>

definition saved_dialog :: dialog where
  "saved_dialog = (typed_dialog ''1024'')\<lparr>targetTexelDensity := Some 1024\<rparr>"

definition normalized_dialog :: dialog where
  "normalized_dialog = saved_dialog\<lparr>currentTexelDensity_textField := ''1024''\<rparr>"

definition measured_dialog :: dialog where
  "measured_dialog =
     normalized_dialog\<lparr>currentTexelDensity_textField := ''205'',
                        setTexelDensity_textField := ''''\<rparr>"

section \<open>Properties of the measurement\<close>

subsection \<open>The helpers compute the Euclidean lengths\<close>

lemma getDistance3D_edge_verts: "getDistance3D (edge_verts e) = Inr (worldLen e)"
  by (simp add: edge_verts_def worldLen_def split: prod.splits)

lemma getDistance2D_interior: "interior e \<Longrightarrow> getDistance2D (uvs e) = Inr (uvLen e)"
  by (cases "uvs e" rule: getDistance2D.cases)
     (auto simp: interior_def uvLen_def split: prod.splits)

lemma edge_step_helper:
  "edge_step helper_globals e st =
     (if worldLen e = 0 then Inl ZeroDivisionError
      else if interior e then Inr (fst st + 1, snd st + edgeDensity e)
      else Inr st)"
proof (cases "interior e")
  case True
  then show ?thesis
    by (simp add: edge_step_def helper_globals_def getDistance3D_edge_verts
        getDistance2D_interior edgeDensity_def interior_def[symmetric])
next
  case False
  then show ?thesis
    by (simp add: edge_step_def helper_globals_def getDistance3D_edge_verts interior_def)
qed

lemma edge_loop_helper:
  "edge_loop helper_globals es st =
     (if \<exists>e \<in> set es. worldLen e = 0 then Inl ZeroDivisionError
      else Inr (fst st + length (filter interior es),
                snd st + sum_list (map edgeDensity (filter interior es))))"
proof (induction es arbitrary: st)
  case Nil
  show ?case by simp
next
  case (Cons e es)
  show ?case
    by (simp add: edge_step_helper Cons.IH)
qed

lemma texelDensity_helper:
  "texelDensity helper_globals es =
     (if (\<exists>e \<in> set es. worldLen e = 0) \<or> filter interior es = [] then Inl ZeroDivisionError
      else Inr (py_round (sum_list (map edgeDensity (filter interior es))
                          / real (length (filter interior es)))))"
  by (simp add: texelDensity_def edge_loop_helper)

text \<open>Whatever the namespace binds, a step on a shell edge never changes the loop state.\<close>

lemma edge_step_shell:
  "\<not> interior e \<Longrightarrow> edge_step G e st = Inr st' \<Longrightarrow> st' = st"
  by (auto simp: edge_step_def interior_def Let_def split: option.splits sum.splits if_splits)

lemma edge_loop_shell:
  "\<forall>e \<in> set es. \<not> interior e \<Longrightarrow> edge_loop G es st = Inr st' \<Longrightarrow> st' = st"
proof (induction es arbitrary: st)
  case Nil
  then show ?case by simp
next
  case (Cons e es)
  from Cons.prems(2) obtain st1 where s: "edge_step G e st = Inr st1"
    and l: "edge_loop G es st1 = Inr st'"
    by (auto split: sum.splits)
  from Cons.prems(1) s have "st1 = st" by (auto dest: edge_step_shell)
  with Cons.IH[of st] Cons.prems(1) l show ?case by simp
qed

lemma texelDensity_shell:
  assumes "\<forall>e \<in> set es. \<not> interior e"
  shows "\<exists>err. texelDensity G es = Inl err"
proof (cases "edge_loop G es (0, 0)")
  case (Inl err)
  then show ?thesis by (simp add: texelDensity_def)
next
  case (Inr st')
  with assms have "st' = (0, 0)" by (rule edge_loop_shell)
  with Inr show ?thesis by (simp add: texelDensity_def)
qed

text \<open>In the namespace of the module alone the first edge already raises NameError.\<close>

lemma edge_step_module_globals: "edge_step module_globals e st = Inl NameError"
  by (simp add: edge_step_def module_globals_def)

lemma texelDensity_module_globals:
  "texelDensity module_globals es = (if es = [] then Inl ZeroDivisionError else Inl NameError)"
  by (cases es) (simp_all add: texelDensity_def edge_step_def module_globals_def)

subsection \<open>The example edges\<close>

lemma sqrt_hundredth: "sqrt (1 / 100) = 1 / 10"
  by (rule real_sqrt_unique) (simp_all add: power2_eq_square)

lemma unit_edge_facts:
  "interior unit_edge" "worldLen unit_edge = 1" "uvLen unit_edge = 1 / 10"
  "edgeDensity unit_edge = 1024 / 5"
  by (simp_all add: unit_edge_def interior_def worldLen_def uvLen_def edgeDensity_def
      defaultTextureRes_def power2_eq_square sqrt_hundredth real_sqrt_divide)

lemma seam_edge_facts: "\<not> interior seam_edge" "worldLen seam_edge = 0"
  by (simp_all add: seam_edge_def interior_def worldLen_def)

lemma border_edge_facts: "\<not> interior border_edge" "worldLen border_edge = 2"
  by (simp_all add: border_edge_def interior_def worldLen_def)

lemma py_round_scenario: "py_round (1024 / 5) = 205"
  by (simp add: py_round_def Let_def)

lemma str_int_205: "str_int 205 = ''205''"
  by (simp add: str_int_def digit_char_def)

text \<open>The scenario of the specification: one interior edge, UV length 0.1, world length 1.\<close>

lemma getTexelDensity_scenario:
  "getTexelDensity helper_globals [pPlane1] d =
     Inr (d\<lparr>currentTexelDensity_textField := ''205'', setTexelDensity_textField := ''''\<rparr>)"
  by (simp add: getTexelDensity_def pPlane1_def texelDensity_helper unit_edge_facts
      py_round_scenario str_int_205)

lemma texelDensity_average:
  assumes "\<forall>e \<in> set es. worldLen e \<noteq> 0" and "\<exists>e \<in> set es. interior e"
  shows "texelDensity helper_globals es =
           Inr (py_round (sum_list (map edgeDensity (filter interior es))
                          / real (length (filter interior es))))"
proof -
  from assms(2) have "filter interior es \<noteq> []"
    by (simp add: filter_empty_conv)
  with assms(1) show ?thesis by (simp add: texelDensity_helper)
qed

subsection \<open>Claims about the measurement\<close>

text \<open>
  Claim C1: for every mesh with at least one interior edge, all of whose interior edges
  have a world length other than zero, the measurement returns the rounded average of
  the densities of the interior edges; one interior edge of UV length 0.1 and world
  length 1 gives 205.

  The code does so where no edge at all has world length zero (lemmas
  \<open>texelDensity_average\<close> and \<open>getTexelDensity_scenario\<close> above). It divides by
  the world length of every edge before it looks at the UVs, so a seam edge of length
  zero beside the interior edge of the scenario makes the measurement raise
  ZeroDivisionError instead of showing 205; in the namespace of the module alone the
  same selection raises NameError at the first call of a helper.
\<close>

theorem seam_edge_stops_measure:
  "interior unit_edge \<and> worldLen unit_edge = 1 \<and> uvLen unit_edge = 1 / 10
   \<and> \<not> interior seam_edge
   \<and> getTexelDensity helper_globals [pPlane2] new_dialog = Inl ZeroDivisionError
   \<and> getTexelDensity module_globals [pPlane2] new_dialog = Inl NameError"
  by (simp add: getTexelDensity_def pPlane2_def texelDensity_helper
      texelDensity_module_globals unit_edge_facts seam_edge_facts)

text \<open>
  Claim C3: on a mesh without interior edges the measurement fails with
  DegenerateMeshError instead of dividing by the interior-edge count of zero.

  The code has no such check and no such exception. On a mesh whose only edge is a seam
  edge of world length 2 the loop runs through with the counter still zero, line 166
  divides by it, and the exception is the ZeroDivisionError of that division; a mesh
  without any edge does the same in the namespace of the module alone. In that
  namespace a mesh with edges raises NameError at line 148, with or without interior
  edges.
\<close>

theorem zero_count_division_counterexample:
  "\<not> interior border_edge
   \<and> edge_loop helper_globals (obj_edges pPlane4) (0, 0) = Inr (0, 0)
   \<and> getTexelDensity helper_globals [pPlane4] new_dialog = Inl ZeroDivisionError
   \<and> edge_loop module_globals (obj_edges polySurface1) (0, 0) = Inr (0, 0)
   \<and> getTexelDensity module_globals [polySurface1] new_dialog = Inl ZeroDivisionError
   \<and> getTexelDensity module_globals [pPlane4] new_dialog = Inl NameError
   \<and> getTexelDensity module_globals [pPlane1] new_dialog = Inl NameError"
  by (simp add: getTexelDensity_def texelDensity_helper texelDensity_module_globals
      edge_step_helper pPlane4_def pPlane1_def polySurface1_def border_edge_facts
      unit_edge_facts)

text \<open>
  Claim C3 as amended: on a mesh without interior edges the measurement fails, whatever
  the namespace binds; it returns no value, puts no default in its place and writes no
  text field. No check of the interior-edge count stands before the division: whenever
  the loop has run through all edges the counter is zero, the code divides by it, and
  the failure is the ZeroDivisionError of that division (line 166).
\<close>

theorem no_interior_edge_fails:
  assumes "\<forall>e \<in> set (obj_edges ob). \<not> interior e"
  shows "(\<exists>err. getTexelDensity G (ob # sel) d = Inl err)
         \<and> (\<forall>st. edge_loop G (obj_edges ob) (0, 0) = Inr st \<longrightarrow>
                st = (0, 0) \<and> getTexelDensity G (ob # sel) d = Inl ZeroDivisionError)"
proof
  from assms obtain err where "texelDensity G (obj_edges ob) = Inl err"
    using texelDensity_shell by blast
  then show "\<exists>err. getTexelDensity G (ob # sel) d = Inl err"
    by (simp add: getTexelDensity_def)
next
  show "\<forall>st. edge_loop G (obj_edges ob) (0, 0) = Inr st \<longrightarrow>
          st = (0, 0) \<and> getTexelDensity G (ob # sel) d = Inl ZeroDivisionError"
  proof (intro allI impI)
    fix st
    assume l: "edge_loop G (obj_edges ob) (0, 0) = Inr st"
    with assms have "st = (0, 0)" by (rule edge_loop_shell)
    with l show "st = (0, 0) \<and> getTexelDensity G (ob # sel) d = Inl ZeroDivisionError"
      by (simp add: getTexelDensity_def texelDensity_def)
  qed
qed

theorem no_interior_edge_fails_witness:
  "obj_edges pPlane4 = [border_edge] \<and> \<not> interior border_edge
   \<and> edge_loop helper_globals [border_edge] (0, 0) = Inr (0, 0)
   \<and> getTexelDensity helper_globals [pPlane4] new_dialog = Inl ZeroDivisionError"
proof -
  have h: "\<forall>e \<in> set (obj_edges pPlane4). \<not> interior e"
    by (simp add: pPlane4_def border_edge_facts)
  have l: "edge_loop helper_globals (obj_edges pPlane4) (0, 0) = Inr (0, 0)"
    by (simp add: pPlane4_def edge_step_helper border_edge_facts)
  from no_interior_edge_fails [OF h, of helper_globals "[]" new_dialog] l
  have "getTexelDensity helper_globals [pPlane4] new_dialog = Inl ZeroDivisionError"
    by blast
  with l show ?thesis
    by (simp add: pPlane4_def border_edge_facts del: edge_loop.simps)
qed

text \<open>
  Claim C4: the measurement fails only for a mesh without interior edges or with an
  interior edge of world length zero, and succeeds even beside a seam edge of world
  length zero.

  The code raises ZeroDivisionError for an edge of world length zero of either kind:
  the reciprocal of the length (line 149) is computed before the UV count is tested
  (line 154). The instance below has an interior edge of length 1 and a seam edge of
  length 0.
\<close>

theorem zero_length_edge_fails:
  assumes "\<exists>e \<in> set (obj_edges ob). worldLen e = 0"
  shows "getTexelDensity helper_globals (ob # sel) d = Inl ZeroDivisionError"
  using assms by (simp add: getTexelDensity_def texelDensity_helper)

theorem zero_length_edge_fails_witness:
  "obj_edges pPlane5 = [unit_edge, seam_edge]
   \<and> interior unit_edge \<and> worldLen unit_edge = 1
   \<and> \<not> interior seam_edge \<and> worldLen seam_edge = 0
   \<and> getTexelDensity helper_globals [pPlane5] new_dialog = Inl ZeroDivisionError"
proof -
  have h: "\<exists>e \<in> set (obj_edges pPlane5). worldLen e = 0"
    by (simp add: pPlane5_def seam_edge_facts)
  from zero_length_edge_fails [OF h, of "[]" new_dialog] show ?thesis
    by (simp add: pPlane5_def unit_edge_facts seam_edge_facts)
qed

text \<open>
  Claim C6: an edge whose UV count is not 2 is skipped, adding nothing to the sum and
  to the counter of interior edges, and every edge with exactly 2 UVs adds its density
  and is counted.

  The code divides by the world length of an edge (line 149) before it looks at the
  UVs (line 154). On the seam edge of length zero followed by the interior edge of the
  scenario, the pass over the seam edge raises ZeroDivisionError instead of going on to
  the next edge, so the interior edge is never counted; in the namespace of the module
  alone the same pass raises NameError at line 148.
\<close>

theorem seam_edge_not_skipped:
  "\<not> interior seam_edge \<and> interior unit_edge \<and> worldLen unit_edge = 1
   \<and> edge_step helper_globals seam_edge (0, 0) = Inl ZeroDivisionError
   \<and> edge_loop helper_globals [seam_edge, unit_edge] (0, 0) = Inl ZeroDivisionError
   \<and> edge_step module_globals seam_edge (0, 0) = Inl NameError
   \<and> edge_loop module_globals [seam_edge, unit_edge] (0, 0) = Inl NameError"
  by (simp add: edge_step_helper edge_step_module_globals seam_edge_facts
      unit_edge_facts)

section \<open>Properties of the normalization\<close>

subsection \<open>The quotient by 2048 as a double\<close>

text \<open>
  A target whose absolute value is an integer below \<open>2 ^ 53\<close> times a power of two
  has an exact quotient; doubling a target doubles the quotient unless the double
  leaves the range; \<open>2 ^ 53 + 1\<close> is the first target whose quotient is rounded.
\<close>

lemma py_round_of_int [simp]: "py_round (of_int n) = n"
  by (simp add: py_round_def)

lemma floor_log2_quot_bounds:
  "bitlen a - bitlen b - 1 \<le> floor_log2_quot a b \<and> floor_log2_quot a b \<le> bitlen a - bitlen b"
  by (simp add: floor_log2_quot_def Let_def)

lemma bitlen_double: "0 < a \<Longrightarrow> bitlen (2 * a) = bitlen a + 1"
  using bitlen_pow2 [of a 1] by (simp add: mult.commute)

lemma floor_log2_quot_double:
  assumes "0 < a"
  shows "floor_log2_quot (2 * a) b = floor_log2_quot a b + 1"
proof -
  define k where "k = bitlen a - bitlen b"
  have k': "bitlen (2 * a) - bitlen b = k + 1"
    using assms by (simp add: bitlen_double k_def)
  have "(b * 2 ^ nat (k + 1) \<le> 2 * a * 2 ^ nat (- (k + 1))) = (b * 2 ^ nat k \<le> a * 2 ^ nat (- k))"
  proof (cases "0 \<le> k")
    case True
    then have "nat (k + 1) = Suc (nat k)" "nat (- (k + 1)) = 0" "nat (- k) = 0" by auto
    then show ?thesis by simp
  next
    case False
    then have "nat (k + 1) = 0" "nat (- k) = Suc (nat (- (k + 1)))" "nat k = 0" by auto
    then show ?thesis by (simp add: mult_ac)
  qed
  then show ?thesis
    unfolding floor_log2_quot_def k' k_def [symmetric] by (simp add: Let_def)
qed



lemma bitlen_2048: "bitlen 2048 = 12"
  by code_simp

lemma bitlen_pos: "0 < a \<Longrightarrow> 1 \<le> bitlen a"
  using bitlen_eq_zero_iff [of a] bitlen_nonneg [of a] by linarith

lemma floor_log2_2048_lower: "0 < a \<Longrightarrow> - 12 \<le> floor_log2_quot a 2048"
  using floor_log2_quot_bounds [of a 2048] bitlen_pos [of a] by (simp add: bitlen_2048)

lemma py_truediv_2048:
  assumes "t \<noteq> 0"
  shows "py_truediv t 2048 =
           (let e = floor_log2_quot \<bar>t\<bar> 2048 - 52;
                r = of_int (py_round (of_int t / 2048 / 2 powi e)) * 2 powi e
            in if 2 ^ 1024 \<le> \<bar>r\<bar> then Inl OverflowError else Inr r)"
proof -
  from assms have "- 12 \<le> floor_log2_quot \<bar>t\<bar> 2048"
    by (intro floor_log2_2048_lower) simp
  then have "max (floor_log2_quot \<bar>t\<bar> 2048 - 52) (- 1074) = floor_log2_quot \<bar>t\<bar> 2048 - 52"
    by simp
  with assms show ?thesis
    by (simp add: py_truediv_def Let_def)
qed

lemma py_truediv_exact:
  assumes t: "t = c * 2 ^ j" and c: "c \<noteq> 0" "\<bar>c\<bar> < 2 ^ 53"
    and r: "\<bar>real_of_int t / 2048\<bar> < 2 ^ 1024"
  shows "py_truediv t 2048 = Inr (of_int t / 2048)"
proof -
  define L where "L = floor_log2_quot \<bar>t\<bar> 2048"
  define P :: real where "P = 2 powi (int j - 11)"
  have t0: "t \<noteq> 0" using t c by simp
  have abs_t: "\<bar>t\<bar> = \<bar>c\<bar> * 2 ^ j" by (simp add: t abs_mult)
  have "bitlen \<bar>c\<bar> \<le> 53"
    using c by (simp add: bitlen_le_iff_power)
  moreover have "bitlen \<bar>t\<bar> = bitlen \<bar>c\<bar> + int j"
    unfolding abs_t using c by (intro bitlen_pow2) simp
  ultimately have Lj: "L \<le> int j + 41"
    using floor_log2_quot_bounds [of "\<bar>t\<bar>" 2048] by (simp add: L_def bitlen_2048)
  define d where "d = nat (int j + 41 - L)"
  have d: "int d = int j + 41 - L"
    using Lj by (simp add: d_def)
  have P0: "P \<noteq> 0" by (simp add: P_def)
  have e: "2 powi (L - 52) = P / 2 ^ d"
  proof -
    have "L - 52 = (int j - 11) - int d" using d by simp
    then show ?thesis by (simp add: P_def power_int_diff)
  qed
  have q: "real_of_int t / 2048 = of_int c * P"
    by (simp add: t P_def power_int_diff)
  have m: "real_of_int t / 2048 / 2 powi (L - 52) = of_int (c * 2 ^ d)"
    using P0 by (simp add: q e)
  have r': "of_int (c * 2 ^ d) * 2 powi (L - 52) = real_of_int t / 2048"
    by (simp add: q e)
  have "py_truediv t 2048 =
      (if 2 ^ 1024 \<le> \<bar>real_of_int t / 2048\<bar> then Inl OverflowError
       else Inr (real_of_int t / 2048))"
    unfolding py_truediv_2048 [OF t0] L_def [symmetric] Let_def m py_round_of_int r' ..
  with r show ?thesis by (simp only: not_le [symmetric] if_False)
qed


lemma py_truediv_small:
  assumes "\<bar>t\<bar> \<le> 2 ^ 53"
  shows "py_truediv t 2048 = Inr (of_int t / 2048)"
proof -
  have "\<bar>real_of_int t\<bar> \<le> 2 ^ 53"
    using assms by (metis of_int_abs of_int_le_numeral_power_cancel_iff)
  also have "(2::real) ^ 53 < 2 ^ 1024 * 2048"
    by simp
  finally have r: "\<bar>real_of_int t / 2048\<bar> < 2 ^ 1024"
    by (simp add: abs_divide)
  have "t = 0 \<or> (t \<noteq> 0 \<and> \<bar>t\<bar> < 2 ^ 53) \<or> t = 2 ^ 53 \<or> t = - (2 ^ 53)"
    using assms by simp linarith
  then consider "t = 0" | "t \<noteq> 0" "\<bar>t\<bar> < 2 ^ 53" | "t = 2 ^ 53" | "t = - (2 ^ 53)"
    by blast
  then show ?thesis
  proof cases
    case 1
    then show ?thesis by (simp add: py_truediv_def)
  next
    case 2
    then show ?thesis using r by (intro py_truediv_exact [of t t 0]) simp_all
  next
    case 3
    then show ?thesis using r by (intro py_truediv_exact [of t 1 53]) simp_all
  next
    case 4
    then show ?thesis using r by (intro py_truediv_exact [of t "- 1" 53]) simp_all
  qed
qed

lemma py_truediv_double:
  assumes "t \<noteq> 0"
  shows "py_truediv (2 * t) 2048 =
           (case py_truediv t 2048 of
              Inl err \<Rightarrow> Inl err
            | Inr s \<Rightarrow> if 2 ^ 1023 \<le> \<bar>s\<bar> then Inl OverflowError else Inr (2 * s))"
proof -
  define e where "e = floor_log2_quot \<bar>t\<bar> 2048 - 52"
  define m where "m = py_round (real_of_int t / 2048 / 2 powi e)"
  define r where "r = real_of_int m * 2 powi e"
  have one: "py_truediv t 2048 = (if 2 ^ 1024 \<le> \<bar>r\<bar> then Inl OverflowError else Inr r)"
    unfolding py_truediv_2048 [OF assms] Let_def e_def [symmetric] m_def [symmetric]
      r_def [symmetric] ..
  have "\<bar>2 * t\<bar> = 2 * \<bar>t\<bar>" by simp
  moreover have "0 < \<bar>t\<bar>" using assms by simp
  ultimately have e': "floor_log2_quot \<bar>2 * t\<bar> 2048 - 52 = e + 1"
    by (simp only: floor_log2_quot_double e_def)
  have p: "(2::real) powi (e + 1) = 2 powi e * 2"
    by (simp add: power_int_add)
  have m': "py_round (real_of_int (2 * t) / 2048 / 2 powi (e + 1)) = m"
    by (simp add: p m_def)
  have r': "real_of_int m * 2 powi (e + 1) = 2 * r"
    by (simp add: p r_def)
  have "2 * t \<noteq> 0" using assms by simp
  have two: "py_truediv (2 * t) 2048 =
      (if 2 ^ 1024 \<le> \<bar>2 * r\<bar> then Inl OverflowError else Inr (2 * r))"
    unfolding py_truediv_2048 [OF \<open>2 * t \<noteq> 0\<close>] Let_def e' m' r' ..
  have h: "((2::real) ^ 1024 \<le> \<bar>2 * r\<bar>) = (2 ^ 1023 \<le> \<bar>r\<bar>)"
    by (simp add: abs_mult)
  have g: "(2::real) ^ 1024 \<le> \<bar>r\<bar> \<Longrightarrow> 2 ^ 1023 \<le> \<bar>r\<bar>"
    by simp
  show ?thesis
    unfolding one two h using g by (simp only: sum.case split: if_split) auto
qed

lemma floor_log2_example: "floor_log2_quot 9007199254740993 2048 = 42"
  by code_simp

lemma py_round_tie: "py_round (9007199254740993 / 2) = 4503599627370496"
  by (simp add: py_round_def Let_def)

lemma truediv_rounds: "py_truediv (2 ^ 53 + 1) 2048 = Inr (2 ^ 42)"
proof -
  have "py_truediv 9007199254740993 2048 = Inr 4398046511104"
    unfolding py_truediv_2048 [of 9007199254740993, simplified] 
    by (simp add: floor_log2_example Let_def power_int_def power_one_over py_round_tie)
  then show ?thesis by simp
qed

lemma truediv_big: "py_truediv (2 ^ 1034) 2048 = Inr (2 ^ 1023)"
proof -
  have e: "real_of_int (2 ^ 1034) / 2048 = 2 ^ 1023"
    by simp
  have "py_truediv (2 ^ 1034) 2048 = Inr (real_of_int (2 ^ 1034) / 2048)"
    by (rule py_truediv_exact [of _ 1 1034]) (simp_all only: e, simp_all)
  then show ?thesis by (simp only: e)
qed

lemma truediv_overflow: "py_truediv (2 * 2 ^ 1034) 2048 = Inl OverflowError"
proof -
  have "py_truediv (2 * 2 ^ 1034) 2048 =
      (case py_truediv (2 ^ 1034) 2048 of
         Inl err \<Rightarrow> Inl err
       | Inr s \<Rightarrow> if 2 ^ 1023 \<le> \<bar>s\<bar> then Inl OverflowError else Inr (2 * s))"
    by (rule py_truediv_double) simp
  also have "\<dots> = Inl OverflowError"
    by (simp only: truediv_big sum.case) simp
  finally show ?thesis .
qed

subsection \<open>The scale of line 94\<close>

lemma scaleTarget_small:
  "\<bar>t\<bar> \<le> 2 ^ 53 \<Longrightarrow> scaleTarget t = Inr (of_int t / 2048)"
  by (simp add: scaleTarget_def defaultTextureRes_def py_truediv_small)

lemma scaleTarget_double:
  "t \<noteq> 0 \<Longrightarrow>
   scaleTarget (2 * t) =
     (case scaleTarget t of
        Inl err \<Rightarrow> Inl err
      | Inr s \<Rightarrow> if 2 ^ 1023 \<le> \<bar>s\<bar> then Inl OverflowError else Inr (2 * s))"
  unfolding scaleTarget_def defaultTextureRes_def by (rule py_truediv_double)

lemma scaleTarget_examples:
  "scaleTarget 1024 = Inr (1 / 2)" "scaleTarget 0 = Inr 0"
  "scaleTarget (- 5) = Inr (- (5 / 2048))" "scaleTarget 2048 = Inr 1"
  by (simp_all add: scaleTarget_small)

lemma scaleTarget_large:
  "scaleTarget (2 ^ 53 + 1) = Inr (2 ^ 42)"
  "scaleTarget (2 ^ 1034) = Inr (2 ^ 1023)"
  "scaleTarget (2 * 2 ^ 1034) = Inl OverflowError"
  by (simp_all only: scaleTarget_def defaultTextureRes_def truediv_rounds truediv_big
      truediv_overflow)

lemma scaleTarget_huge: "scaleTarget huge_target = Inl OverflowError"
  unfolding huge_target_def by (rule scaleTarget_large)

subsection \<open>The loop over the selection\<close>

lemma unfold_loop_scale: "c \<in> set (fst (unfold_loop unfold_ok sel s)) \<Longrightarrow> snd c = s"
  by (induction sel) (auto split: if_splits prod.splits)

lemma unfold_loop_accepted:
  "\<forall>ob \<in> set sel. unfold_ok ob s \<Longrightarrow>
   unfold_loop unfold_ok sel s = (map (\<lambda>ob. (ob, s)) sel, None)"
  by (induction sel) simp_all

lemma unfold_loop_None:
  "snd (unfold_loop unfold_ok sel s) = None \<Longrightarrow> \<forall>ob \<in> set sel. unfold_ok ob s"
  by (induction sel) (auto split: if_splits prod.splits)

lemma set_texel_density_calls:
  "targetTexelDensity d = Some t \<Longrightarrow> scaleTarget t = Inr s \<Longrightarrow>
   fst (set_texel_density unfold_ok sel d) = fst (unfold_loop unfold_ok sel s)"
  by (simp add: set_texel_density_def split: prod.splits option.splits)

lemma set_texel_density_accepted:
  assumes "targetTexelDensity d = Some t" and "scaleTarget t = Inr s"
    and "\<forall>ob \<in> set sel. unfold_ok ob s"
  shows "set_texel_density unfold_ok sel d =
           (map (\<lambda>ob. (ob, s)) sel,
            Inr (d\<lparr>currentTexelDensity_textField := str_int t\<rparr>))"
proof -
  from assms(3) have "unfold_loop unfold_ok sel s = (map (\<lambda>ob. (ob, s)) sel, None)"
    by (simp add: unfold_loop_accepted)
  with assms(1,2) show ?thesis by (simp add: set_texel_density_def)
qed

lemma set_texel_density_success:
  "snd (set_texel_density unfold_ok sel d) = Inr d' \<longleftrightarrow>
     (\<exists>t s. targetTexelDensity d = Some t \<and> scaleTarget t = Inr s
            \<and> (\<forall>ob \<in> set sel. unfold_ok ob s)
            \<and> d' = d\<lparr>currentTexelDensity_textField := str_int t\<rparr>)"
proof (cases "targetTexelDensity d")
  case None
  then show ?thesis by (simp add: set_texel_density_def)
next
  case (Some t)
  show ?thesis
  proof (cases "scaleTarget t")
    case (Inl err)
    with Some show ?thesis by (simp add: set_texel_density_def)
  next
    case (Inr s)
    show ?thesis
    proof (cases "\<forall>ob \<in> set sel. unfold_ok ob s")
      case True
      with Some Inr show ?thesis
        by (auto simp: set_texel_density_def unfold_loop_accepted)
    next
      case False
      then have "snd (unfold_loop unfold_ok sel s) \<noteq> None"
        using unfold_loop_None by blast
      with Some Inr False show ?thesis
        by (auto simp: set_texel_density_def split: prod.splits option.splits)
    qed
  qed
qed

lemma str_int_examples: "str_int 1024 = ''1024''" "str_int 0 = ''0''" "str_int (- 5) = ''-5''"
  by (simp_all add: str_int_def digit_char_def)

lemma saveTexelDensity_1024: "saveTexelDensity (typed_dialog ''1024'') = Inr saved_dialog"
  by (simp add: saveTexelDensity_def saved_dialog_def typed_dialog_def new_dialog_def
      py_int_def strip_def is_space_def parse_nat_def digit_of_def)

lemma getTexelDensity_pPlane3:
  "getTexelDensity helper_globals [pPlane3] d =
     Inr (d\<lparr>currentTexelDensity_textField := ''205'', setTexelDensity_textField := ''''\<rparr>)"
  by (simp add: getTexelDensity_def pPlane3_def texelDensity_helper unit_edge_facts
      border_edge_facts py_round_scenario str_int_205)

lemma getTexelDensity_keeps_target:
  "getTexelDensity G sel d = Inr d' \<Longrightarrow> targetTexelDensity d' = targetTexelDensity d"
  by (auto simp: getTexelDensity_def split: list.splits sum.splits)

subsection \<open>The shown text denotes the number\<close>

text \<open>
  Reading back with \<^verbatim>\<open>int\<close> what \<^verbatim>\<open>str\<close> printed gives the number again. The
  defining equation of \<open>str_nat\<close> is taken out of the simplifier here and used through
  its two cases.
\<close>

declare str_nat.simps [simp del]

lemma lt10: "(k::nat) < 10 \<Longrightarrow> k = 0 \<or> k = 1 \<or> k = 2 \<or> k = 3 \<or> k = 4 \<or> k = 5 \<or> k = 6 \<or> k = 7 \<or> k = 8 \<or> k = 9"
  by arith

lemma digit_of_digit_char: "k < 10 \<Longrightarrow> digit_of (digit_char k) = Some k"
  by (drule lt10) (elim disjE; simp add: digit_char_def digit_of_def)

lemma digit_char_plain:
  "k < 10 \<Longrightarrow> digit_char k \<noteq> CHR ''_'' \<and> digit_char k \<noteq> CHR ''-''
     \<and> digit_char k \<noteq> CHR ''+'' \<and> \<not> is_space (digit_char k)"
  by (drule lt10) (elim disjE; simp add: digit_char_def is_space_def)


lemma str_nat_small: "n < 10 \<Longrightarrow> str_nat n = [digit_char n]"
  by (subst str_nat.simps) simp

lemma str_nat_large:
  "\<not> n < 10 \<Longrightarrow> str_nat n = str_nat (n div 10) @ [digit_char (n mod 10)]"
  by (subst str_nat.simps) simp

lemma str_nat_digits: "c \<in> set (str_nat n) \<Longrightarrow> \<exists>k<10. c = digit_char k"
proof (induction n rule: str_nat.induct)
  case (1 n)
  show ?case
  proof (cases "n < 10")
    case True
    with "1.prems" show ?thesis by (auto simp: str_nat_small)
  next
    case False
    then have "str_nat n = str_nat (n div 10) @ [digit_char (n mod 10)]"
      by (rule str_nat_large)
    with "1.prems" have "c \<in> set (str_nat (n div 10)) \<or> c = digit_char (n mod 10)"
      by auto
    then show ?thesis
    proof
      assume "c \<in> set (str_nat (n div 10))"
      with False show ?thesis by (rule "1.IH")
    next
      assume "c = digit_char (n mod 10)"
      moreover have "n mod 10 < 10" by simp
      ultimately show ?thesis by blast
    qed
  qed
qed

lemma parse_digits_snoc:
  assumes "\<forall>c \<in> set xs. \<exists>j<10. c = digit_char j" and "k < 10"
  shows "parse_digits acc (xs @ [digit_char k]) =
           map_option (\<lambda>a. 10 * a + k) (parse_digits acc xs)"
  using assms(1)
proof (induction xs arbitrary: acc)
  case Nil
  with assms(2) show ?case by (simp add: digit_of_digit_char digit_char_plain)
next
  case (Cons c cs)
  then obtain j where j: "j < 10" "c = digit_char j" by auto
  from Cons.prems have "\<forall>c \<in> set cs. \<exists>j<10. c = digit_char j" by simp
  then have ih: "\<And>acc. parse_digits acc (cs @ [digit_char k]) =
           map_option (\<lambda>a. 10 * a + k) (parse_digits acc cs)"
    by (rule Cons.IH)
  from j show ?case by (simp add: digit_of_digit_char digit_char_plain ih)
qed


lemma parse_digits_str_nat: "parse_digits 0 (str_nat n) = Some n"
proof (induction n rule: str_nat.induct)
  case (1 n)
  show ?case
  proof (cases "n < 10")
    case True
    then show ?thesis
      by (simp add: str_nat_small digit_of_digit_char digit_char_plain)
  next
    case False
    have "parse_digits 0 (str_nat (n div 10) @ [digit_char (n mod 10)]) =
            map_option (\<lambda>a. 10 * a + n mod 10) (parse_digits 0 (str_nat (n div 10)))"
      by (rule parse_digits_snoc) (auto dest: str_nat_digits)
    with False "1.IH" show ?thesis
      by (simp add: str_nat_large)
  qed
qed

lemma str_nat_not_Nil: "str_nat n \<noteq> []"
  by (cases "n < 10") (simp_all add: str_nat_small str_nat_large)

lemma parse_nat_str_nat: "parse_nat (str_nat n) = Some n"
proof -
  obtain c cs where s: "str_nat n = c # cs"
    using str_nat_not_Nil by (cases "str_nat n") auto
  then have "c \<in> set (str_nat n)" by simp
  then obtain k where k: "k < 10" "c = digit_char k"
    using str_nat_digits by blast
  have "parse_digits 0 (c # cs) = Some n"
    using parse_digits_str_nat[of n] s by simp
  with k have "parse_digits k cs = Some n"
    by (simp add: digit_of_digit_char digit_char_plain)
  with s k show ?thesis by (simp add: parse_nat_def digit_of_digit_char)
qed

lemma dropWhile_none: "\<forall>x \<in> set xs. \<not> P x \<Longrightarrow> dropWhile P xs = xs"
  by (cases xs) auto

lemma strip_no_space: "\<forall>c \<in> set xs. \<not> is_space c \<Longrightarrow> strip xs = xs"
  by (simp add: strip_def dropWhile_none)

lemma str_nat_no_space: "c \<in> set (str_nat n) \<Longrightarrow> \<not> is_space c"
  using digit_char_plain by (auto dest!: str_nat_digits)

lemma py_int_str_int: "py_int (str_int t) = Some t"
proof (cases "t < 0")
  case True
  have "\<forall>c \<in> set (CHR ''-'' # str_nat (nat (- t))). \<not> is_space c"
    by (auto dest: str_nat_no_space simp: is_space_def)
  then have "strip (CHR ''-'' # str_nat (nat (- t))) = CHR ''-'' # str_nat (nat (- t))"
    by (rule strip_no_space)
  with True show ?thesis
    by (simp add: py_int_def str_int_def parse_nat_str_nat)
next
  case False
  obtain c cs where s: "str_nat (nat t) = c # cs"
    using str_nat_not_Nil by (cases "str_nat (nat t)") auto
  then have "c \<in> set (str_nat (nat t))" by simp
  then obtain k where k: "k < 10" "c = digit_char k"
    using str_nat_digits by blast
  have "\<forall>c \<in> set (str_nat (nat t)). \<not> is_space c"
    by (auto dest: str_nat_no_space)
  then have "strip (str_nat (nat t)) = str_nat (nat t)"
    by (rule strip_no_space)
  moreover have "parse_nat (c # cs) = Some (nat t)"
    using parse_nat_str_nat[of "nat t"] s by simp
  ultimately show ?thesis
    using False s k by (simp add: py_int_def str_int_def digit_char_plain)
qed

subsection \<open>Claims about the normalization\<close>

text \<open>
  Claim C2: for every positive target \<open>t\<close> the scale factor is \<open>t / 2048\<close>.

  Line 94 divides two ints into a float. For the target \<open>2 ^ 53 + 1\<close> the factor is
  \<open>2 ^ 42\<close>, which is not the quotient by 2048, and for the target \<open>2 ^ 1035\<close>
  the division raises OverflowError.
\<close>

theorem scale_factor_rounded_counterexample:
  "scaleTarget (2 ^ 53 + 1) = Inr (2 ^ 42)
   \<and> (2 :: real) ^ 42 \<noteq> of_int (2 ^ 53 + 1) / 2048
   \<and> scaleTarget (2 * 2 ^ 1034) = Inl OverflowError"
proof -
  have "(2 :: real) ^ 42 \<noteq> of_int (2 ^ 53 + 1) / 2048"
    by simp
  then show ?thesis
    by (simp only: scaleTarget_large simp_thms)
qed

text \<open>
  Claim C2 as amended: for every positive target \<open>t\<close> up to \<open>2 ^ 53\<close> the scale
  factor is exactly \<open>t / 2048\<close>, and 1024 gives 0.5. The factor is the value of line
  94, and it is the scale that every invocation of \<^verbatim>\<open>unfold\<close> receives.
\<close>

theorem scale_factor_is_ratio:
  assumes "0 < t" and "t \<le> 2 ^ 53" and "targetTexelDensity d = Some t"
  shows "scaleTarget t = Inr (of_int t / 2048)
         \<and> (\<forall>c \<in> set (fst (set_texel_density unfold_ok sel d)). snd c = of_int t / 2048)
         \<and> scaleTarget 1024 = Inr (1 / 2)"
proof -
  from assms(1,2) have r: "scaleTarget t = Inr (of_int t / 2048)"
    by (intro scaleTarget_small) simp
  moreover have "\<forall>c \<in> set (fst (set_texel_density unfold_ok sel d)). snd c = of_int t / 2048"
    using set_texel_density_calls [OF assms(3) r] by (auto dest: unfold_loop_scale)
  ultimately show ?thesis by (simp add: scaleTarget_examples)
qed

theorem scale_factor_is_ratio_witness:
  "(0::int) < 1024 \<and> (1024::int) \<le> 2 ^ 53 \<and> scaleTarget 1024 = Inr (1 / 2)
   \<and> fst (set_texel_density always_ok [pPlane1] (new_dialog\<lparr>targetTexelDensity := Some 1024\<rparr>))
       = [(pPlane1, 1 / 2)]"
  using scale_factor_is_ratio [of 1024 "new_dialog\<lparr>targetTexelDensity := Some 1024\<rparr>" always_ok "[pPlane1]"]
  by (simp add: set_texel_density_def always_ok_def scaleTarget_examples)

text \<open>
  Claim C5: a target that is zero or negative makes the computation of the scale factor
  fail, and no scale is computed or applied.

  The code does not look at the sign of the target. With the targets 0 and -5 and one
  selected object the slot completes: \<^verbatim>\<open>unfold\<close> is invoked with the scales 0 and
  -5/2048, and the text field shows the target.
\<close>

theorem nonpositive_target_counterexample:
  "set_texel_density always_ok [pPlane1] (new_dialog\<lparr>targetTexelDensity := Some 0\<rparr>)
     = ([(pPlane1, 0)],
        Inr (new_dialog\<lparr>targetTexelDensity := Some 0, currentTexelDensity_textField := ''0''\<rparr>))
   \<and> set_texel_density always_ok [pPlane1] (new_dialog\<lparr>targetTexelDensity := Some (- 5)\<rparr>)
     = ([(pPlane1, - (5 / 2048))],
        Inr (new_dialog\<lparr>targetTexelDensity := Some (- 5),
                         currentTexelDensity_textField := ''-5''\<rparr>))"
  by (simp add: set_texel_density_def always_ok_def scaleTarget_examples str_int_examples)

text \<open>
  Claim C5 as amended: the sign of the target is never tested. For a target \<open>t\<close> that
  is zero or negative, whenever the division of line 94 returns a factor and the host
  accepts every invocation, the slot invokes \<^verbatim>\<open>unfold\<close> once for each selected
  object with that factor and shows \<open>t\<close> in the text field; and for every such
  target down to \<open>- (2 ^ 53)\<close> the division does return, with the factor exactly
  \<open>t / 2048\<close>.
\<close>

theorem nonpositive_target_is_applied:
  assumes "t \<le> 0" and "targetTexelDensity d = Some t"
  shows "(scaleTarget t = Inr s \<and> (\<forall>ob \<in> set sel. unfold_ok ob s) \<longrightarrow>
            set_texel_density unfold_ok sel d =
              (map (\<lambda>ob. (ob, s)) sel,
               Inr (d\<lparr>currentTexelDensity_textField := str_int t\<rparr>)))
         \<and> (- (2 ^ 53) \<le> t \<longrightarrow> scaleTarget t = Inr (of_int t / 2048))"
proof (intro conjI impI)
  assume "scaleTarget t = Inr s \<and> (\<forall>ob \<in> set sel. unfold_ok ob s)"
  with assms(2) show "set_texel_density unfold_ok sel d =
      (map (\<lambda>ob. (ob, s)) sel, Inr (d\<lparr>currentTexelDensity_textField := str_int t\<rparr>))"
    by (intro set_texel_density_accepted) simp_all
next
  assume "- (2 ^ 53) \<le> t"
  with assms(1) have "\<bar>t\<bar> \<le> 2 ^ 53" by simp
  then show "scaleTarget t = Inr (of_int t / 2048)"
    by (rule scaleTarget_small)
qed

theorem nonpositive_target_is_applied_witness:
  "(- 5 :: int) \<le> 0 \<and> - (2 ^ 53) \<le> (- 5 :: int)
   \<and> scaleTarget (- 5) = Inr (- (5 / 2048))
   \<and> set_texel_density always_ok [pPlane1] (new_dialog\<lparr>targetTexelDensity := Some (- 5)\<rparr>)
       = ([(pPlane1, - (5 / 2048))],
          Inr (new_dialog\<lparr>targetTexelDensity := Some (- 5),
                           currentTexelDensity_textField := str_int (- 5)\<rparr>))"
  using nonpositive_target_is_applied
    [of "- 5" "new_dialog\<lparr>targetTexelDensity := Some (- 5)\<rparr>" "- (5 / 2048)" "[pPlane1]"
        always_ok]
  by (simp add: always_ok_def)

text \<open>
  Claim C7: with nothing selected the normalization fails, invokes no rescale and does
  not update the shown density.

  With an empty selection and a stored target of 1024 the slot completes: it invokes
  \<^verbatim>\<open>unfold\<close> not once, and it does write the text field, which shows 1024 afterwards.
\<close>

theorem empty_selection_counterexample:
  "set_texel_density always_ok [] saved_dialog = ([], Inr normalized_dialog)
   \<and> currentTexelDensity_textField saved_dialog = ''''
   \<and> currentTexelDensity_textField normalized_dialog = ''1024''"
  by (simp add: set_texel_density_def saved_dialog_def normalized_dialog_def
      typed_dialog_def new_dialog_def str_int_examples scaleTarget_examples)

text \<open>
  Claim C7 as amended: with nothing selected the normalization invokes no rescale, and
  the stored target alone decides how it ends. With no target stored it fails with the
  TypeError of line 94, and with a target whose quotient by 2048 is no double it fails
  with the OverflowError of line 94, in both cases changing nothing; otherwise, and so
  for every stored target between \<open>- (2 ^ 53)\<close> and \<open>2 ^ 53\<close>, it completes and
  shows that target as the current density.
\<close>

theorem empty_selection_completes:
  "set_texel_density unfold_ok [] d =
     ([], case targetTexelDensity d of
            None \<Rightarrow> Inl TypeError
          | Some t \<Rightarrow>
              (case scaleTarget t of
                 Inl err \<Rightarrow> Inl err
               | Inr s \<Rightarrow> Inr (d\<lparr>currentTexelDensity_textField := str_int t\<rparr>)))
   \<and> (targetTexelDensity d = Some t \<and> \<bar>t\<bar> \<le> 2 ^ 53 \<longrightarrow>
        set_texel_density unfold_ok [] d =
          ([], Inr (d\<lparr>currentTexelDensity_textField := str_int t\<rparr>)))"
  by (auto simp: set_texel_density_def scaleTarget_small split: option.splits sum.splits)

theorem empty_selection_completes_witness:
  "set_texel_density always_ok [] new_dialog = ([], Inl TypeError)
   \<and> targetTexelDensity saved_dialog = Some 1024 \<and> \<bar>1024 :: int\<bar> \<le> 2 ^ 53
   \<and> set_texel_density always_ok [] saved_dialog
       = ([], Inr (saved_dialog\<lparr>currentTexelDensity_textField := str_int 1024\<rparr>))
   \<and> set_texel_density always_ok [] (new_dialog\<lparr>targetTexelDensity := Some huge_target\<rparr>)
       = ([], Inl OverflowError)"
proof -
  have t: "targetTexelDensity saved_dialog = Some 1024"
    by (simp add: saved_dialog_def)
  have a: "set_texel_density always_ok [] new_dialog = ([], Inl TypeError)"
    using empty_selection_completes [of always_ok new_dialog 0]
    by (simp add: new_dialog_def)
  have b: "set_texel_density always_ok [] saved_dialog
      = ([], Inr (saved_dialog\<lparr>currentTexelDensity_textField := str_int 1024\<rparr>))"
    using empty_selection_completes [of always_ok saved_dialog 1024] t
    by (simp add: scaleTarget_examples)
  have c: "set_texel_density always_ok [] (new_dialog\<lparr>targetTexelDensity := Some huge_target\<rparr>)
      = ([], Inl OverflowError)"
    using empty_selection_completes
      [of always_ok "new_dialog\<lparr>targetTexelDensity := Some huge_target\<rparr>" 0]
    by (simp add: scaleTarget_huge)
  from a b c t show ?thesis by simp
qed

text \<open>
  Claim C9: the target is not retained between requests; after a normalization no
  stored target is left to influence a later one that supplied none.

  The target lives in the attribute \<^verbatim>\<open>targetTexelDensity\<close> of the dialog, which only
  \<^verbatim>\<open>saveTexelDensity\<close> writes. After the user typed 1024, a first normalization uses
  the scale 1/2; a measurement then empties the target field; the attribute still
  holds 1024, and a second normalization of another object uses the scale 1/2 again.
\<close>

theorem stored_target_survives_counterexample:
  "saveTexelDensity (typed_dialog ''1024'') = Inr saved_dialog
   \<and> set_texel_density always_ok [pPlane1] saved_dialog
       = ([(pPlane1, 1 / 2)], Inr normalized_dialog)
   \<and> getTexelDensity helper_globals [pPlane3] normalized_dialog = Inr measured_dialog
   \<and> setTexelDensity_textField measured_dialog = ''''
   \<and> targetTexelDensity measured_dialog = Some 1024
   \<and> set_texel_density always_ok [pPlane3] measured_dialog
       = ([(pPlane3, 1 / 2)],
          Inr (measured_dialog\<lparr>currentTexelDensity_textField := ''1024''\<rparr>))"
  by (simp add: saveTexelDensity_1024 getTexelDensity_pPlane3 set_texel_density_def
      always_ok_def scaleTarget_examples str_int_examples
      saved_dialog_def normalized_dialog_def measured_dialog_def)

text \<open>
  Claim C9 as amended: the target is stored in the dialog and retained between
  requests. A normalization that completes leaves the stored target as it was, so any
  later normalization invokes the rescale with the same scale as it would have before.
\<close>

theorem stored_target_is_retained:
  assumes "snd (set_texel_density unfold_ok sel d) = Inr d'"
  shows "targetTexelDensity d' = targetTexelDensity d
         \<and> fst (set_texel_density unfold_ok' sel' d') = fst (set_texel_density unfold_ok' sel' d)"
proof -
  from assms obtain t where "d' = d\<lparr>currentTexelDensity_textField := str_int t\<rparr>"
    by (auto simp: set_texel_density_success)
  then show ?thesis
    by (simp add: set_texel_density_def split: option.splits prod.splits sum.splits)
qed

theorem stored_target_is_retained_witness:
  "snd (set_texel_density always_ok [pPlane1] saved_dialog) = Inr normalized_dialog
   \<and> targetTexelDensity saved_dialog = Some 1024
   \<and> targetTexelDensity normalized_dialog = Some 1024
   \<and> fst (set_texel_density always_ok [pPlane3] normalized_dialog) = [(pPlane3, 1 / 2)]"
proof -
  have h: "snd (set_texel_density always_ok [pPlane1] saved_dialog) = Inr normalized_dialog"
    by (simp add: set_texel_density_def always_ok_def saved_dialog_def normalized_dialog_def
        str_int_examples scaleTarget_examples)
  from stored_target_is_retained [OF h, of always_ok "[pPlane3]"] h show ?thesis
    by (simp add: set_texel_density_def always_ok_def saved_dialog_def scaleTarget_examples)
qed

text \<open>
  Claim C8: the scale factor is linear on positive targets, doubling the target doubles
  the factor, and the target 2048 gives the factor 1.

  For the target \<open>2 ^ 1034\<close> the factor is \<open>2 ^ 1023\<close>, a double; for twice that
  target line 94 raises OverflowError, so the factor of the doubled target is not
  twice the factor.
\<close>

theorem scale_factor_doubling_counterexample:
  "scaleTarget (2 ^ 1034) = Inr (2 ^ 1023)
   \<and> scaleTarget (2 * 2 ^ 1034) = Inl OverflowError"
  by (simp only: scaleTarget_large simp_thms)

text \<open>
  Claim C8 as amended: on positive targets doubling the target doubles the scale factor
  as long as the doubled factor is a double: when the factor of \<open>t\<close> is \<open>s\<close> and
  \<open>s\<close> is below \<open>2 ^ 1023\<close>, the factor of \<open>2 * t\<close> is \<open>2 * s\<close>, and otherwise
  the division for \<open>2 * t\<close> raises OverflowError. The target 2048 gives the factor 1.
\<close>

theorem scale_factor_linear:
  assumes "0 < t"
  shows "scaleTarget (2 * t) =
           (case scaleTarget t of
              Inl err \<Rightarrow> Inl err
            | Inr s \<Rightarrow> if 2 ^ 1023 \<le> \<bar>s\<bar> then Inl OverflowError else Inr (2 * s))
         \<and> scaleTarget defaultTextureRes = Inr 1"
proof -
  from assms have "t \<noteq> 0" by simp
  then have "scaleTarget (2 * t) =
      (case scaleTarget t of
         Inl err \<Rightarrow> Inl err
       | Inr s \<Rightarrow> if 2 ^ 1023 \<le> \<bar>s\<bar> then Inl OverflowError else Inr (2 * s))"
    by (rule scaleTarget_double)
  moreover have "scaleTarget defaultTextureRes = Inr 1"
    by (simp add: defaultTextureRes_def scaleTarget_examples)
  ultimately show ?thesis by (simp only: simp_thms)
qed

theorem scale_factor_linear_witness:
  "(0::int) < 1024 \<and> scaleTarget 1024 = Inr (1 / 2)
   \<and> scaleTarget (2 * 1024) = Inr (2 * (1 / 2)) \<and> scaleTarget 2048 = Inr 1"
  using scale_factor_linear [of 1024]
  by (simp add: scaleTarget_examples defaultTextureRes_def)

text \<open>
  Claim C10: after a normalization that completes, the shown current density is exactly
  the stored target, not a measured value. The slot writes \<^verbatim>\<open>str\<close> of the target
  (line 99), which reads back as the target; it never looks at the geometry of the
  selection. It completes whenever the division of line 94 returns a factor and the
  host accepts every invocation with it. In the instance the target is 1024 and the
  field shows 1024, where a measurement of the same selection would show 205.
\<close>

theorem normalize_reports_target:
  assumes "targetTexelDensity d = Some t"
  shows "(snd (set_texel_density unfold_ok sel d) = Inr d' \<longrightarrow>
            d' = d\<lparr>currentTexelDensity_textField := str_int t\<rparr>)
         \<and> (scaleTarget t = Inr s \<and> (\<forall>ob \<in> set sel. unfold_ok ob s) \<longrightarrow>
              snd (set_texel_density unfold_ok sel d)
                = Inr (d\<lparr>currentTexelDensity_textField := str_int t\<rparr>))
         \<and> py_int (str_int t) = Some t"
proof (intro conjI impI)
  assume "snd (set_texel_density unfold_ok sel d) = Inr d'"
  with assms show "d' = d\<lparr>currentTexelDensity_textField := str_int t\<rparr>"
    by (auto simp: set_texel_density_success)
next
  assume "scaleTarget t = Inr s \<and> (\<forall>ob \<in> set sel. unfold_ok ob s)"
  with assms have "set_texel_density unfold_ok sel d =
      (map (\<lambda>ob. (ob, s)) sel, Inr (d\<lparr>currentTexelDensity_textField := str_int t\<rparr>))"
    by (intro set_texel_density_accepted) simp_all
  then show "snd (set_texel_density unfold_ok sel d)
      = Inr (d\<lparr>currentTexelDensity_textField := str_int t\<rparr>)"
    by simp
next
  show "py_int (str_int t) = Some t" by (rule py_int_str_int)
qed

theorem normalize_reports_target_witness:
  "targetTexelDensity saved_dialog = Some 1024
   \<and> scaleTarget 1024 = Inr (1 / 2)
   \<and> snd (set_texel_density always_ok [pPlane1] saved_dialog) = Inr normalized_dialog
   \<and> currentTexelDensity_textField normalized_dialog = ''1024''
   \<and> py_int ''1024'' = Some 1024
   \<and> getTexelDensity helper_globals [pPlane1] saved_dialog
       = Inr (saved_dialog\<lparr>currentTexelDensity_textField := ''205'',
                            setTexelDensity_textField := ''''\<rparr>)"
proof -
  have t: "targetTexelDensity saved_dialog = Some 1024"
    by (simp add: saved_dialog_def)
  have a: "\<forall>ob \<in> set [pPlane1]. always_ok ob (1 / 2)"
    by (simp add: always_ok_def)
  from normalize_reports_target
    [of saved_dialog 1024 always_ok "[pPlane1]" normalized_dialog "1 / 2"] t a
  show ?thesis
    by (simp add: str_int_examples scaleTarget_examples normalized_dialog_def
        getTexelDensity_scenario)
qed

end
